theory Spec2Isabelle
  imports Main
begin

section \<open>JavaScript values and objects\<close>

text \<open>
  The values that reach \<^verbatim>\<open>createRouter\<close> as its argument. Every object of the model is
  a router (an \<^verbatim>\<open>express.Router\<close> or application), named by its reference; a reference
  that names no router of the store stands for an object of another kind. Numbers are
  integers here (\<^verbatim>\<open>NaN\<close> is left out).
\<close>

type_synonym ref = nat

datatype jsval = Undefined | Null | JBool bool | JNum int | JStr string | JObj ref

text \<open>The truth value of \<^verbatim>\<open>v ? a : b\<close> and of \<^verbatim>\<open>if (v)\<close>.\<close>

fun truthy :: "jsval \<Rightarrow> bool" where
  "truthy Undefined = False"
| "truthy Null = False"
| "truthy (JBool b) = b"
| "truthy (JNum n) = (n \<noteq> 0)"
| "truthy (JStr s) = (s \<noteq> [])"
| "truthy (JObj r) = True"

text \<open>
  A parameter declared \<^verbatim>\<open>p = d\<close>: the default stands in when the argument is left out
  (\<open>None\<close>) or is \<^verbatim>\<open>undefined\<close>.
\<close>

definition default_param :: "jsval \<Rightarrow> jsval option \<Rightarrow> jsval" where
  "default_param d arg = (case arg of None \<Rightarrow> d | Some v \<Rightarrow> (if v = Undefined then d else v))"

text \<open>
  An object used as a dictionary with string keys: its own properties, in the order in
  which \<^verbatim>\<open>Object.keys\<close> lists them. No two properties of one object share a key.
\<close>

typedef 't js_object = "{ps :: (string \<times> 't) list. distinct (map fst ps)}"
  morphisms own_props Obj
  by (rule exI [of _ "[]"]) simp

definition Object_keys :: "'t js_object \<Rightarrow> string list" where
  "Object_keys obj = map fst (own_props obj)"

text \<open>\<^verbatim>\<open>obj[name]\<close>: \<open>None\<close> is \<^verbatim>\<open>undefined\<close>.\<close>

definition get_prop :: "'t js_object \<Rightarrow> string \<Rightarrow> 't option" where
  "get_prop obj name = map_of (own_props obj) name"

section \<open>The options of the constructor\<close>

datatype optval = OBool bool | ONum int | OStr string | OObj "string \<Rightarrow> optval option"

type_synonym js_options = "string \<rightharpoonup> optval"

text \<open>
  \<^verbatim>\<open>Object.assign(target, ...sources)\<close>: every own property of each source is written onto
  the target, in turn; a source that is \<^verbatim>\<open>undefined\<close> or \<^verbatim>\<open>null\<close> (\<open>None\<close>) is skipped.
\<close>

definition Object_assign :: "js_options \<Rightarrow> js_options option list \<Rightarrow> js_options" where
  "Object_assign target sources =
     foldl (\<lambda>t s. case s of None \<Rightarrow> t | Some m \<Rightarrow> t ++ m) target sources"

definition default_define :: js_options where
  "default_define = [''timestamps'' \<mapsto> OBool False, ''freezeTableName'' \<mapsto> OBool True]"

definition default_options :: js_options where
  "default_options =
     [''dialect'' \<mapsto> OStr ''mysql'',
      ''logging'' \<mapsto> OBool False,
      ''define'' \<mapsto> OObj default_define,
      ''closeConnectionAutomatically'' \<mapsto> OBool False,
      ''directory'' \<mapsto> OStr ''models'']"

section \<open>The collaborators: sequelize, sequelize-auto, express and epilogue\<close>

text \<open>
  The four libraries are not part of the repository. Each is modelled by the state it
  keeps and the effect of the calls \<^verbatim>\<open>createRouter\<close> makes on it; \<open>'t\<close> is the type of a
  table description as sequelize-auto produces it.
\<close>

record 't model =
  model_name :: string
  attributes :: "'t option"

record 't sequelize =
  models :: "'t model list"

text \<open>
  \<^verbatim>\<open>sequelize.define(name, table)\<close>: a model already defined under the name is removed,
  the new one is added.
\<close>

definition sequelize_define :: "string \<Rightarrow> 't option \<Rightarrow> 't sequelize \<Rightarrow> 't sequelize" where
  "sequelize_define name table sq =
     sq\<lparr>models := filter (\<lambda>m. model_name m \<noteq> name) (models sq)
                     @ [\<lparr>model_name = name, attributes = table\<rparr>]\<rparr>"

text \<open>\<^verbatim>\<open>sequelize.models[name]\<close>.\<close>

definition models_lookup :: "'t sequelize \<Rightarrow> string \<Rightarrow> 't model option" where
  "models_lookup sq name = find (\<lambda>m. model_name m = name) (models sq)"

record 't sequelize_auto =
  auto_database :: string
  auto_user :: string
  auto_password :: string
  auto_options :: js_options
  sequelize :: "'t sequelize"
  tables :: "'t js_object"

definition SequelizeAuto_new ::
  "string \<Rightarrow> string \<Rightarrow> string \<Rightarrow> js_options \<Rightarrow> 't sequelize_auto" where
  "SequelizeAuto_new db u p opts =
     \<lparr>auto_database = db, auto_user = u, auto_password = p, auto_options = opts,
      sequelize = \<lparr>models = []\<rparr>, tables = Obj []\<rparr>"

text \<open>
  What the database answers to one introspection: the error handed to the callback of
  \<^verbatim>\<open>auto.run\<close> (a falsy value when there is none) and the tables found.
\<close>

record 't introspection =
  intro_error :: jsval
  intro_tables :: "'t js_object"

text \<open>
  \<^verbatim>\<open>auto.run(callback)\<close> fills \<^verbatim>\<open>auto.tables\<close> and calls the callback once, with the error.
  The result is the callback's argument and the instance after the run.
\<close>

definition SequelizeAuto_run ::
  "'t introspection \<Rightarrow> 't sequelize_auto \<Rightarrow> jsval \<times> 't sequelize_auto" where
  "SequelizeAuto_run intro a = (intro_error intro, a\<lparr>tables := intro_tables intro\<rparr>)"

text \<open>
  A route binds a path to the model that serves it. The store holds the routes of every
  router, by reference, and the application epilogue was last initialised with
  (epilogue keeps it in a variable of its module, beside the sequelize instance, which has
  no part in mounting).
\<close>

type_synonym route = "string \<times> string"

record world =
  routers :: "route list list"
  epilogue_app :: jsval

text \<open>\<^verbatim>\<open>new Router()\<close>: a router with no route, under a reference not in use.\<close>

definition Router_new :: "world \<Rightarrow> jsval \<times> world" where
  "Router_new w = (JObj (length (routers w)), w\<lparr>routers := routers w @ [[]]\<rparr>)"

datatype js_exception = TypeError | EpilogueError

text \<open>\<^verbatim>\<open>epilogue.initialize({app, sequelize})\<close> refuses a falsy application.\<close>

definition epilogue_initialize :: "jsval \<Rightarrow> world \<Rightarrow> js_exception + world" where
  "epilogue_initialize app w =
     (if truthy app then Inr (w\<lparr>epilogue_app := app\<rparr>) else Inl EpilogueError)"

record 't resource =
  model :: "'t model"
  endpoints :: "string list"

text \<open>
  \<^verbatim>\<open>epilogue.resource({model, endpoints})\<close> refuses a missing model, and mounts every
  endpoint on the application of \<^verbatim>\<open>initialize\<close>; mounting on a value that is no router
  throws a \<^verbatim>\<open>TypeError\<close>.
\<close>

definition epilogue_resource ::
  "'t model option \<Rightarrow> string list \<Rightarrow> world \<Rightarrow> js_exception + ('t resource \<times> world)" where
  "epilogue_resource mo eps w =
     (case mo of
        None \<Rightarrow> Inl EpilogueError
      | Some m \<Rightarrow>
          (case epilogue_app w of
             JObj r \<Rightarrow>
               (if r < length (routers w)
                then Inr (\<lparr>model = m, endpoints = eps\<rparr>,
                          w\<lparr>routers := (routers w)
                               [r := routers w ! r @ map (\<lambda>e. (e, model_name m)) eps]\<rparr>)
                else Inl TypeError)
           | _ \<Rightarrow> Inl TypeError))"

section \<open>The class RESTRouter\<close>

text \<open>
  The fields of an instance. The constructor leaves \<^verbatim>\<open>auto\<close>, \<^verbatim>\<open>router\<close> and
  \<^verbatim>\<open>resources\<close> unset: \<open>None\<close>, \<open>Undefined\<close> and the empty list stand for that
  (\<^verbatim>\<open>createRouter\<close> assigns all three before it reads any).
\<close>

record 't rest_router =
  database :: string
  user :: string
  password :: string
  options :: js_options
  auto :: "'t sequelize_auto option"
  router :: jsval
  resources :: "'t resource list"

definition RESTRouter_new ::
  "string \<Rightarrow> string \<Rightarrow> string \<Rightarrow> js_options option \<Rightarrow> 't rest_router" where
  "RESTRouter_new db u p opts =
     \<lparr>database = db, user = u, password = p,
      options = Object_assign Map.empty [Some default_options, opts],
      auto = None, router = Undefined, resources = []\<rparr>"

text \<open>
  The promise of \<^verbatim>\<open>createRouter\<close>: the calls made to \<^verbatim>\<open>resolve\<close> and \<^verbatim>\<open>reject\<close>, in
  order, and the exception that left the callback of \<^verbatim>\<open>auto.run\<close>, if one did.
\<close>

record 't resolution =
  res_rest :: "'t rest_router"
  res_router :: jsval
  res_resources :: "'t resource list"

datatype 't settle = Resolve "'t resolution" | Reject jsval

record 't promise =
  settle_calls :: "'t settle list"
  uncaught :: "js_exception option"

text \<open>A promise keeps the first settlement; later calls change nothing.\<close>

datatype 't promise_state = Pending | Fulfilled "'t resolution" | Rejected jsval

definition state_of :: "'t promise \<Rightarrow> 't promise_state" where
  "state_of p =
     (case settle_calls p of
        [] \<Rightarrow> Pending
      | Resolve v # _ \<Rightarrow> Fulfilled v
      | Reject e # _ \<Rightarrow> Rejected e)"

text \<open>The body of the \<^verbatim>\<open>forEach\<close>, for one table name.\<close>

definition add_table ::
  "string \<Rightarrow> 't rest_router \<Rightarrow> world \<Rightarrow> js_exception option \<times> 't rest_router \<times> world" where
  "add_table name restRouter w =
     (case auto restRouter of
        None \<Rightarrow> (Some TypeError, restRouter, w)
      | Some a \<Rightarrow>
          (let table = get_prop (tables a) name;
               sq = sequelize_define name table (sequelize a);
               restRouter1 = restRouter\<lparr>auto := Some (a\<lparr>sequelize := sq\<rparr>)\<rparr>;
               model = models_lookup sq name;
               endpoints = [''/'' @ name, ''/'' @ name @ ''/:id'']
           in case epilogue_resource model endpoints w of
                Inl e \<Rightarrow> (Some e, restRouter1, w)
              | Inr (resource, w') \<Rightarrow>
                  (None, restRouter1\<lparr>resources := resources restRouter1 @ [resource]\<rparr>, w')))"

fun forEach_tables ::
  "string list \<Rightarrow> 't rest_router \<Rightarrow> world \<Rightarrow> js_exception option \<times> 't rest_router \<times> world" where
  "forEach_tables [] restRouter w = (None, restRouter, w)"
| "forEach_tables (name # names) restRouter w =
     (case add_table name restRouter w of
        (Some e, restRouter', w') \<Rightarrow> (Some e, restRouter', w')
      | (None, restRouter', w') \<Rightarrow> forEach_tables names restRouter' w')"

text \<open>The callback handed to \<^verbatim>\<open>auto.run\<close>.\<close>

definition callback ::
  "jsval \<Rightarrow> 't rest_router \<Rightarrow> world \<Rightarrow> 't promise \<times> 't rest_router \<times> world" where
  "callback error restRouter w =
     (if truthy error then (\<lparr>settle_calls = [Reject error], uncaught = None\<rparr>, restRouter, w)
      else
        (case auto restRouter of
           None \<Rightarrow> (\<lparr>settle_calls = [], uncaught = Some TypeError\<rparr>, restRouter, w)
         | Some a \<Rightarrow>
             (case epilogue_initialize (router restRouter) w of
                Inl e \<Rightarrow> (\<lparr>settle_calls = [], uncaught = Some e\<rparr>, restRouter, w)
              | Inr w1 \<Rightarrow>
                  (case forEach_tables (Object_keys (tables a)) restRouter w1 of
                     (Some e, restRouter', w') \<Rightarrow>
                       (\<lparr>settle_calls = [], uncaught = Some e\<rparr>, restRouter', w')
                   | (None, restRouter', w') \<Rightarrow>
                       (\<lparr>settle_calls =
                           [Resolve \<lparr>res_rest = restRouter', res_router = router restRouter',
                                     res_resources = resources restRouter'\<rparr>],
                         uncaught = None\<rparr>, restRouter', w')))))"

text \<open>
  \<^verbatim>\<open>createRouter(router = undefined)\<close>, run to the end of the callback: the promise, the
  instance and the store it leaves. Nothing else touches the instance or the store between
  the call and the callback; an exception that leaves the callback settles nothing.
\<close>

definition createRouter ::
  "'t rest_router \<Rightarrow> jsval option \<Rightarrow> 't introspection \<Rightarrow> world
     \<Rightarrow> 't promise \<times> 't rest_router \<times> world" where
  "createRouter this arg intro w =
     (let router0 = default_param Undefined arg;
          a = SequelizeAuto_new (database this) (user this) (password this) (options this);
          this1 = this\<lparr>auto := Some a\<rparr>;
          (r, w1) = (if truthy router0 then (router0, w) else Router_new w);
          this2 = this1\<lparr>router := r\<rparr>;
          this3 = this2\<lparr>resources := []\<rparr>;
          (error, a') = SequelizeAuto_run intro a
      in callback error (this3\<lparr>auto := Some a'\<rparr>) w1)"

text \<open>\<^verbatim>\<open>static create(database, user, password, options, router = undefined)\<close>.\<close>

definition RESTRouter_create ::
  "string \<Rightarrow> string \<Rightarrow> string \<Rightarrow> js_options option \<Rightarrow> jsval option \<Rightarrow> 't introspection \<Rightarrow> world
     \<Rightarrow> 't promise \<times> 't rest_router \<times> world" where
  "RESTRouter_create db u p opts arg intro w =
     (let router0 = default_param Undefined arg
      in createRouter (RESTRouter_new db u p opts) (Some router0) intro w)"

section \<open>Two calls on one instance\<close>

text \<open>
  The statements of \<^verbatim>\<open>createRouter\<close> that run before it returns the promise: they assign
  \<^verbatim>\<open>this.auto\<close>, \<^verbatim>\<open>this.router\<close> and \<^verbatim>\<open>this.resources\<close>. The result is the new
  SequelizeAuto, the instance and the store.
\<close>

definition createRouter_sync ::
  "'t rest_router \<Rightarrow> jsval option \<Rightarrow> world \<Rightarrow> 't sequelize_auto \<times> 't rest_router \<times> world" where
  "createRouter_sync this arg w =
     (let router0 = default_param Undefined arg;
          a = SequelizeAuto_new (database this) (user this) (password this) (options this);
          this1 = this\<lparr>auto := Some a\<rparr>;
          (r, w1) = (if truthy router0 then (router0, w) else Router_new w);
          this2 = this1\<lparr>router := r\<rparr>;
          this3 = this2\<lparr>resources := []\<rparr>
      in (a, this3, w1))"

text \<open>
  \<^verbatim>\<open>createRouter\<close> called twice on one instance, the second time before the callback of the
  first call fires. The instance then refers to the SequelizeAuto, the router and the
  resource list of the second call, and the callback of either call reads them through
  \<^verbatim>\<open>restRouter\<close>. Both introspections complete, then the two callbacks fire in the order
  of the calls.
\<close>

record 't overlap =
  first_promise :: "'t promise"
  second_promise :: "'t promise"
  instance_end :: "'t rest_router"
  world_end :: world

definition overlapping_calls ::
  "'t rest_router \<Rightarrow> jsval option \<Rightarrow> jsval option \<Rightarrow> 't introspection \<Rightarrow> 't introspection \<Rightarrow> world
     \<Rightarrow> 't overlap" where
  "overlapping_calls this arg1 arg2 intro1 intro2 w =
     (let (a1, thisA, wA) = createRouter_sync this arg1 w;
          (a2, thisB, wB) = createRouter_sync thisA arg2 wA;
          (error1, a1') = SequelizeAuto_run intro1 a1;
          (error2, a2') = SequelizeAuto_run intro2 a2;
          thisC = thisB\<lparr>auto := Some a2'\<rparr>;
          (promise1, thisD, wD) = callback error1 thisC wB;
          (promise2, thisE, wE) = callback error2 thisD wD
      in \<lparr>first_promise = promise1, second_promise = promise2,
          instance_end = thisE, world_end = wE\<rparr>)"

section \<open>Reading a run\<close>

text \<open>The three parts of what \<^verbatim>\<open>createRouter\<close> leaves.\<close>

definition returned_promise :: "'p \<times> 'i \<times> 'w \<Rightarrow> 'p" where
  "returned_promise run = fst run"

definition instance_after :: "'p \<times> 'i \<times> 'w \<Rightarrow> 'i" where
  "instance_after run = fst (snd run)"

definition world_after :: "'p \<times> 'i \<times> 'w \<Rightarrow> 'w" where
  "world_after run = snd (snd run)"

text \<open>
  The router argument as the documentation types it: left out, or a router of the store;
  the falsy values are let in as well, since the code treats them as a missing argument.
\<close>

definition usable_router :: "world \<Rightarrow> jsval option \<Rightarrow> bool" where
  "usable_router w arg =
     (case default_param Undefined arg of
        JObj r \<Rightarrow> r < length (routers w)
      | v \<Rightarrow> \<not> truthy v)"

text \<open>The collection path of a resource is its first endpoint.\<close>

definition collection_path :: "'t resource \<Rightarrow> string option" where
  "collection_path r = (case endpoints r of [] \<Rightarrow> None | p # _ \<Rightarrow> Some p)"

section \<open>Example inputs\<close>

definition shop_tables :: "string list js_object" where
  "shop_tables = Obj [(''users'', [''id'', ''name'']), (''orders'', [''id'', ''user_id''])]"

definition shop_db :: "string list introspection" where
  "shop_db = \<lparr>intro_error = Null, intro_tables = shop_tables\<rparr>"

definition empty_db :: "string list introspection" where
  "empty_db = \<lparr>intro_error = Undefined, intro_tables = Obj []\<rparr>"

definition failing_db :: "string list introspection" where
  "failing_db = \<lparr>intro_error = JStr ''ER_ACCESS_DENIED_ERROR'', intro_tables = Obj []\<rparr>"

definition colliding_tables :: "string list js_object" where
  "colliding_tables = Obj [(''a'', [''id'']), (''a/:id'', [''id''])]"

definition colliding_db :: "string list introspection" where
  "colliding_db = \<lparr>intro_error = Null, intro_tables = colliding_tables\<rparr>"

text \<open>A store with one application, on which one route is mounted already.\<close>

definition host_world :: world where
  "host_world = \<lparr>routers = [[(''/health'', ''status'')]], epilogue_app = Undefined\<rparr>"

definition shop_rest :: "string list rest_router" where
  "shop_rest = RESTRouter_new ''shop'' ''admin'' ''123456'' None"



section \<open>The loop and the callback\<close>

lemma find_filter_snoc:
  "P m \<Longrightarrow> find P (filter (\<lambda>x. \<not> P x) xs @ [m]) = Some m"
  by (induction xs) auto

lemma models_lookup_define:
  "models_lookup (sequelize_define name table sq) name = Some \<lparr>model_name = name, attributes = table\<rparr>"
  unfolding models_lookup_def sequelize_define_def
  using find_filter_snoc [of "\<lambda>m. model_name m = name" "\<lparr>model_name = name, attributes = table\<rparr>" "models sq"]
  by simp

lemma add_table_ok:
  assumes "auto rr = Some a" "epilogue_app w = JObj r" "r < length (routers w)"
  shows "add_table name rr w =
    (None,
     rr\<lparr>auto := Some (a\<lparr>sequelize := sequelize_define name (get_prop (tables a) name) (sequelize a)\<rparr>),
        resources := resources rr @ [\<lparr>model = \<lparr>model_name = name, attributes = get_prop (tables a) name\<rparr>,
                                     endpoints = [''/'' @ name, ''/'' @ name @ ''/:id'']\<rparr>]\<rparr>,
     w\<lparr>routers := (routers w)[r := routers w ! r @ [(''/'' @ name, name), (''/'' @ name @ ''/:id'', name)]]\<rparr>)"
  using assms
  by (simp add: add_table_def Let_def models_lookup_define epilogue_resource_def)

lemma forEach_tables_ok:
  assumes "auto rr = Some a" "epilogue_app w = JObj r" "r < length (routers w)"
  shows "forEach_tables ns rr w =
    (None,
     rr\<lparr>auto := Some (a\<lparr>sequelize :=
                 foldl (\<lambda>sq n. sequelize_define n (get_prop (tables a) n) sq) (sequelize a) ns\<rparr>),
        resources := resources rr @
          map (\<lambda>n. \<lparr>model = \<lparr>model_name = n, attributes = get_prop (tables a) n\<rparr>,
                    endpoints = [''/'' @ n, ''/'' @ n @ ''/:id'']\<rparr>) ns\<rparr>,
     w\<lparr>routers := (routers w)[r := routers w ! r @
          concat (map (\<lambda>n. [(''/'' @ n, n), (''/'' @ n @ ''/:id'', n)]) ns)]\<rparr>)"
  using assms
proof (induction ns arbitrary: rr a w)
  case Nil
  then show ?case by simp
next
  case (Cons n ns)
  let ?a = "a\<lparr>sequelize := sequelize_define n (get_prop (tables a) n) (sequelize a)\<rparr>"
  let ?rr = "rr\<lparr>auto := Some ?a,
        resources := resources rr @ [\<lparr>model = \<lparr>model_name = n, attributes = get_prop (tables a) n\<rparr>,
                                     endpoints = [''/'' @ n, ''/'' @ n @ ''/:id'']\<rparr>]\<rparr>"
  let ?w = "w\<lparr>routers := (routers w)[r := routers w ! r @ [(''/'' @ n, n), (''/'' @ n @ ''/:id'', n)]]\<rparr>"
  have step: "add_table n rr w = (None, ?rr, ?w)"
    by (rule add_table_ok [OF Cons.prems])
  have rest: "forEach_tables ns ?rr ?w = (None,
     ?rr\<lparr>auto := Some (?a\<lparr>sequelize :=
                 foldl (\<lambda>sq n. sequelize_define n (get_prop (tables ?a) n) sq) (sequelize ?a) ns\<rparr>),
        resources := resources ?rr @
          map (\<lambda>n. \<lparr>model = \<lparr>model_name = n, attributes = get_prop (tables ?a) n\<rparr>,
                    endpoints = [''/'' @ n, ''/'' @ n @ ''/:id'']\<rparr>) ns\<rparr>,
     ?w\<lparr>routers := (routers ?w)[r := routers ?w ! r @
          concat (map (\<lambda>n. [(''/'' @ n, n), (''/'' @ n @ ''/:id'', n)]) ns)]\<rparr>)"
    by (rule Cons.IH) (use Cons.prems in simp_all)
  have "forEach_tables (n # ns) rr w = forEach_tables ns ?rr ?w"
    by (simp only: forEach_tables.simps step prod.case option.case)
  also note rest
  finally show ?case
    using Cons.prems by simp
qed

lemma callback_resolves:
  assumes "\<not> truthy error" "auto rr = Some a" "router rr = JObj r" "r < length (routers w)"
  shows "callback error rr w =
    (let rr' = rr\<lparr>auto := Some (a\<lparr>sequelize :=
                 foldl (\<lambda>sq n. sequelize_define n (get_prop (tables a) n) sq) (sequelize a)
                   (Object_keys (tables a))\<rparr>),
               resources := resources rr @
                 map (\<lambda>n. \<lparr>model = \<lparr>model_name = n, attributes = get_prop (tables a) n\<rparr>,
                    endpoints = [''/'' @ n, ''/'' @ n @ ''/:id'']\<rparr>) (Object_keys (tables a))\<rparr>
     in (\<lparr>settle_calls = [Resolve \<lparr>res_rest = rr', res_router = JObj r,
                                       res_resources = resources rr'\<rparr>],
          uncaught = None\<rparr>,
         rr',
         w\<lparr>routers := (routers w)[r := routers w ! r @
              concat (map (\<lambda>n. [(''/'' @ n, n), (''/'' @ n @ ''/:id'', n)]) (Object_keys (tables a)))],
           epilogue_app := JObj r\<rparr>))"
proof -
  let ?w1 = "w\<lparr>epilogue_app := JObj r\<rparr>"
  have init: "epilogue_initialize (JObj r) w = Inr ?w1"
    by (simp add: epilogue_initialize_def)
  have loop: "forEach_tables (Object_keys (tables a)) rr ?w1 = (None,
     rr\<lparr>auto := Some (a\<lparr>sequelize :=
                 foldl (\<lambda>sq n. sequelize_define n (get_prop (tables a) n) sq) (sequelize a) (Object_keys (tables a))\<rparr>),
        resources := resources rr @
          map (\<lambda>n. \<lparr>model = \<lparr>model_name = n, attributes = get_prop (tables a) n\<rparr>,
                    endpoints = [''/'' @ n, ''/'' @ n @ ''/:id'']\<rparr>) (Object_keys (tables a))\<rparr>,
     ?w1\<lparr>routers := (routers ?w1)[r := routers ?w1 ! r @
          concat (map (\<lambda>n. [(''/'' @ n, n), (''/'' @ n @ ''/:id'', n)]) (Object_keys (tables a)))]\<rparr>)"
    by (rule forEach_tables_ok) (use assms in simp_all)
  show ?thesis
    unfolding callback_def Let_def
    using assms(1,2,3) by (simp add: init loop)
qed

lemma callback_rejects:
  "truthy error \<Longrightarrow> callback error rr w = (\<lparr>settle_calls = [Reject error], uncaught = None\<rparr>, rr, w)"
  by (simp add: callback_def)

lemma createRouter_rejects:
  assumes "truthy (intro_error intro)"
  shows "createRouter this arg intro w =
    (\<lparr>settle_calls = [Reject (intro_error intro)], uncaught = None\<rparr>,
     this\<lparr>auto := Some ((SequelizeAuto_new (database this) (user this) (password this) (options this))
                     \<lparr>tables := intro_tables intro\<rparr>),
          router := (if truthy (default_param Undefined arg) then default_param Undefined arg
                     else JObj (length (routers w))),
          resources := []\<rparr>,
     (if truthy (default_param Undefined arg) then w else w\<lparr>routers := routers w @ [[]]\<rparr>))"
  using assms
  by (simp add: createRouter_def Let_def SequelizeAuto_run_def Router_new_def callback_rejects)

lemma createRouter_supplied:
  assumes "\<not> truthy (intro_error intro)" "default_param Undefined arg = JObj r" "r < length (routers w)"
  shows "createRouter this arg intro w =
    (let ks = Object_keys (intro_tables intro);
         rs = map (\<lambda>n. \<lparr>model = \<lparr>model_name = n, attributes = get_prop (intro_tables intro) n\<rparr>,
                         endpoints = [''/'' @ n, ''/'' @ n @ ''/:id'']\<rparr>) ks;
         rr = this\<lparr>auto := Some ((SequelizeAuto_new (database this) (user this) (password this) (options this))
                     \<lparr>sequelize := foldl (\<lambda>sq n. sequelize_define n (get_prop (intro_tables intro) n) sq)
                                      \<lparr>models = []\<rparr> ks,
                       tables := intro_tables intro\<rparr>),
                  router := JObj r, resources := rs\<rparr>
     in (\<lparr>settle_calls = [Resolve \<lparr>res_rest = rr, res_router = JObj r, res_resources = rs\<rparr>],
          uncaught = None\<rparr>,
         rr,
         w\<lparr>routers := (routers w)[r := routers w ! r @
              concat (map (\<lambda>n. [(''/'' @ n, n), (''/'' @ n @ ''/:id'', n)]) ks)],
           epilogue_app := JObj r\<rparr>))"
proof -
  let ?a = "(SequelizeAuto_new (database this) (user this) (password this) (options this))
              \<lparr>tables := intro_tables intro\<rparr>"
  let ?rr = "this\<lparr>auto := Some ?a, router := JObj r, resources := []\<rparr>"
  have entry: "createRouter this arg intro w = callback (intro_error intro) ?rr w"
    using assms(2) by (cases this) (simp add: createRouter_def Let_def SequelizeAuto_run_def)
  show ?thesis
    unfolding entry
    by (subst callback_resolves [where a = ?a and r = r])
       (use assms in \<open>simp_all add: Let_def SequelizeAuto_new_def\<close>)
qed

lemma createRouter_fresh:
  assumes "\<not> truthy (intro_error intro)" "\<not> truthy (default_param Undefined arg)"
  shows "createRouter this arg intro w =
    (let ks = Object_keys (intro_tables intro);
         r = length (routers w);
         rs = map (\<lambda>n. \<lparr>model = \<lparr>model_name = n, attributes = get_prop (intro_tables intro) n\<rparr>,
                         endpoints = [''/'' @ n, ''/'' @ n @ ''/:id'']\<rparr>) ks;
         rr = this\<lparr>auto := Some ((SequelizeAuto_new (database this) (user this) (password this) (options this))
                     \<lparr>sequelize := foldl (\<lambda>sq n. sequelize_define n (get_prop (intro_tables intro) n) sq)
                                      \<lparr>models = []\<rparr> ks,
                       tables := intro_tables intro\<rparr>),
                  router := JObj r, resources := rs\<rparr>
     in (\<lparr>settle_calls = [Resolve \<lparr>res_rest = rr, res_router = JObj r, res_resources = rs\<rparr>],
          uncaught = None\<rparr>,
         rr,
         w\<lparr>routers := routers w @
              [concat (map (\<lambda>n. [(''/'' @ n, n), (''/'' @ n @ ''/:id'', n)]) ks)],
           epilogue_app := JObj r\<rparr>))"
proof -
  let ?a = "(SequelizeAuto_new (database this) (user this) (password this) (options this))
              \<lparr>tables := intro_tables intro\<rparr>"
  let ?r = "length (routers w)"
  let ?rr = "this\<lparr>auto := Some ?a, router := JObj ?r, resources := []\<rparr>"
  let ?w1 = "w\<lparr>routers := routers w @ [[]]\<rparr>"
  have entry: "createRouter this arg intro w = callback (intro_error intro) ?rr ?w1"
    using assms(2) by (cases this) (simp add: createRouter_def Let_def SequelizeAuto_run_def Router_new_def)
  show ?thesis
    unfolding entry
    by (subst callback_resolves [where a = ?a and r = ?r])
       (use assms in \<open>simp_all add: Let_def SequelizeAuto_new_def\<close>)
qed

section \<open>The claims\<close>

lemma distinct_Object_keys: "distinct (Object_keys obj)"
  using own_props [of obj] by (simp add: Object_keys_def)

lemma usable_router_cases:
  assumes "usable_router w arg"
  obtains (supplied) r where "default_param Undefined arg = JObj r" "r < length (routers w)"
    | (fresh) "\<not> truthy (default_param Undefined arg)"
  using assms unfolding usable_router_def
  by (cases "default_param Undefined arg") auto

lemma keys_shop: "Object_keys shop_tables = [''users'', ''orders'']"
  by (simp add: Object_keys_def shop_tables_def Obj_inverse)

lemma keys_empty: "Object_keys (Obj [] :: string list js_object) = []"
  by (simp add: Object_keys_def Obj_inverse)

text \<open>
  Claim C1. When introspection reports no error and the router argument is usable, the
  promise is fulfilled, and the resource list it carries has one resource per introspected
  table, in the order of the table names; the collection paths are \<open>/name\<close>, pairwise
  distinct; the list is empty exactly when there is no table.
\<close>

theorem createRouter_one_resource_per_table:
  assumes "\<not> truthy (intro_error intro)" and "usable_router w arg"
  shows "\<exists>res. state_of (returned_promise (createRouter this arg intro w)) = Fulfilled res
           \<and> length (res_resources res) = length (Object_keys (intro_tables intro))
           \<and> map (\<lambda>r. model_name (model r)) (res_resources res) = Object_keys (intro_tables intro)
           \<and> map collection_path (res_resources res)
               = map (\<lambda>name. Some (''/'' @ name)) (Object_keys (intro_tables intro))
           \<and> distinct (map collection_path (res_resources res))
           \<and> (res_resources res = []) = (Object_keys (intro_tables intro) = [])"
proof -
  have inj: "distinct (map (\<lambda>name. Some (''/'' @ name)) (Object_keys (intro_tables intro)))"
    by (simp add: distinct_map distinct_Object_keys inj_on_def)
  from assms(2) show ?thesis
  proof (cases rule: usable_router_cases)
    case (supplied r)
    show ?thesis
      using inj
      by (simp add: createRouter_supplied [OF assms(1) supplied] Let_def returned_promise_def
          state_of_def collection_path_def comp_def)
  next
    case fresh
    show ?thesis
      using inj
      by (simp add: createRouter_fresh [OF assms(1) fresh] Let_def returned_promise_def
          state_of_def collection_path_def comp_def)
  qed
qed

theorem createRouter_one_resource_per_table_witness:
  "\<not> truthy (intro_error shop_db) \<and> usable_router host_world None
   \<and> (\<exists>res. state_of (returned_promise (createRouter shop_rest None shop_db host_world)) = Fulfilled res
          \<and> length (res_resources res) = 2
          \<and> map collection_path (res_resources res) = [Some ''/users'', Some ''/orders''])
   \<and> \<not> truthy (intro_error empty_db)
   \<and> (\<exists>res. state_of (returned_promise (createRouter shop_rest None empty_db host_world)) = Fulfilled res
          \<and> res_resources res = [])"
proof -
  have h1: "\<not> truthy (intro_error shop_db)" by (simp add: shop_db_def)
  have h2: "\<not> truthy (intro_error empty_db)" by (simp add: empty_db_def)
  have h3: "usable_router host_world None" by (simp add: usable_router_def default_param_def)
  have k1: "Object_keys (intro_tables shop_db) = [''users'', ''orders'']"
    by (simp add: shop_db_def keys_shop)
  have k2: "Object_keys (intro_tables empty_db) = []"
    by (simp add: empty_db_def keys_empty)
  show ?thesis
    using createRouter_one_resource_per_table [OF h1 h3, of shop_rest]
      createRouter_one_resource_per_table [OF h2 h3, of shop_rest]
    by (auto simp add: h1 h2 h3 k1 k2)
qed

text \<open>
  Claim C4. Every resource of a fulfilled run carries exactly the two endpoints
  \<open>/name\<close> and \<open>/name/:id\<close> of its own table name, whatever the instance, the store
  and the other tables are.
\<close>

theorem createRouter_endpoints_from_table_name:
  assumes "\<not> truthy (intro_error intro)" and "usable_router w arg"
  shows "\<exists>res. state_of (returned_promise (createRouter this arg intro w)) = Fulfilled res
           \<and> map endpoints (res_resources res)
               = map (\<lambda>name. [''/'' @ name, ''/'' @ name @ ''/:id'']) (Object_keys (intro_tables intro))"
  using assms(2)
proof (cases rule: usable_router_cases)
  case (supplied r)
  show ?thesis
    by (simp add: createRouter_supplied [OF assms(1) supplied] Let_def returned_promise_def
        state_of_def comp_def)
next
  case fresh
  show ?thesis
    by (simp add: createRouter_fresh [OF assms(1) fresh] Let_def returned_promise_def
        state_of_def comp_def)
qed

theorem createRouter_endpoints_from_table_name_witness:
  "\<not> truthy (intro_error shop_db) \<and> usable_router host_world (Some (JObj 0))
   \<and> (\<exists>res. state_of (returned_promise (createRouter shop_rest (Some (JObj 0)) shop_db host_world))
                 = Fulfilled res
          \<and> map endpoints (res_resources res)
              = [[''/users'', ''/users/:id''], [''/orders'', ''/orders/:id'']])"
proof -
  have h1: "\<not> truthy (intro_error shop_db)" by (simp add: shop_db_def)
  have h2: "usable_router host_world (Some (JObj 0))"
    by (simp add: usable_router_def default_param_def host_world_def)
  have k: "Object_keys (intro_tables shop_db) = [''users'', ''orders'']"
    by (simp add: shop_db_def keys_shop)
  show ?thesis
    using createRouter_endpoints_from_table_name [OF h1 h2, of shop_rest]
    by (auto simp add: h1 h2 k)
qed

text \<open>
  Claim C7. The resources of a fulfilled run stand in the order in which the table names
  are enumerated, and the routes mounted on the router by the run follow its former
  routes in that same order, two for each table.
\<close>

theorem createRouter_keeps_enumeration_order:
  assumes "\<not> truthy (intro_error intro)" and "usable_router w arg"
  shows "\<exists>res r. state_of (returned_promise (createRouter this arg intro w)) = Fulfilled res
           \<and> res_router res = JObj r
           \<and> map (\<lambda>x. model_name (model x)) (res_resources res) = Object_keys (intro_tables intro)
           \<and> r < length (routers (world_after (createRouter this arg intro w)))
           \<and> routers (world_after (createRouter this arg intro w)) ! r
               = (if r < length (routers w) then routers w ! r else [])
                 @ concat (map (\<lambda>name. [(''/'' @ name, name), (''/'' @ name @ ''/:id'', name)])
                             (Object_keys (intro_tables intro)))"
  using assms(2)
proof (cases rule: usable_router_cases)
  case (supplied r)
  show ?thesis
    using supplied(2)
    by (simp add: createRouter_supplied [OF assms(1) supplied] Let_def returned_promise_def
        world_after_def state_of_def comp_def)
next
  case fresh
  show ?thesis
    by (simp add: createRouter_fresh [OF assms(1) fresh] Let_def returned_promise_def
        world_after_def state_of_def comp_def)
qed

theorem createRouter_keeps_enumeration_order_witness:
  "\<not> truthy (intro_error shop_db) \<and> usable_router host_world (Some (JObj 0))
   \<and> (\<exists>res r. state_of (returned_promise (createRouter shop_rest (Some (JObj 0)) shop_db host_world))
                 = Fulfilled res
          \<and> res_router res = JObj r
          \<and> map (\<lambda>x. model_name (model x)) (res_resources res) = [''users'', ''orders'']
          \<and> r < length (routers (world_after (createRouter shop_rest (Some (JObj 0)) shop_db host_world)))
          \<and> routers (world_after (createRouter shop_rest (Some (JObj 0)) shop_db host_world)) ! r
              = (if r < length (routers host_world) then routers host_world ! r else [])
                @ [(''/users'', ''users''), (''/users/:id'', ''users''),
                   (''/orders'', ''orders''), (''/orders/:id'', ''orders'')])"
proof -
  have h1: "\<not> truthy (intro_error shop_db)" by (simp add: shop_db_def)
  have h2: "usable_router host_world (Some (JObj 0))"
    by (simp add: usable_router_def default_param_def host_world_def)
  have k: "Object_keys (intro_tables shop_db) = [''users'', ''orders'']"
    by (simp add: shop_db_def keys_shop)
  show ?thesis
    using createRouter_keeps_enumeration_order [OF h1 h2, of shop_rest]
    by (simp add: h1 h2 k)
qed

text \<open>
  Claim C6. In a run without introspection error: a router of the store supplied as
  argument is the router of the resolution and of the instance, the endpoints of every
  table are added behind its former routes, and no other router is made or touched; with
  no argument, a router under a reference not in use before is made, returned, and holds
  the endpoints of every table.
\<close>

theorem createRouter_mounts_on_supplied_or_new_router:
  assumes "\<not> truthy (intro_error intro)"
  shows "(\<forall>r. arg = Some (JObj r) \<and> r < length (routers w) \<longrightarrow>
            (\<exists>res. state_of (returned_promise (createRouter this arg intro w)) = Fulfilled res
                   \<and> res_router res = JObj r)
            \<and> router (instance_after (createRouter this arg intro w)) = JObj r
            \<and> routers (world_after (createRouter this arg intro w))
                = (routers w)[r := routers w ! r
                    @ concat (map (\<lambda>name. [(''/'' @ name, name), (''/'' @ name @ ''/:id'', name)])
                                (Object_keys (intro_tables intro)))])
       \<and> (arg = None \<longrightarrow>
            (\<exists>res. state_of (returned_promise (createRouter this arg intro w)) = Fulfilled res
                   \<and> res_router res = JObj (length (routers w)))
            \<and> router (instance_after (createRouter this arg intro w)) = JObj (length (routers w))
            \<and> routers (world_after (createRouter this arg intro w))
                = routers w
                  @ [concat (map (\<lambda>name. [(''/'' @ name, name), (''/'' @ name @ ''/:id'', name)])
                               (Object_keys (intro_tables intro)))])"
proof (intro conjI allI impI)
  fix r
  assume a: "arg = Some (JObj r) \<and> r < length (routers w)"
  then have d: "default_param Undefined arg = JObj r" and l: "r < length (routers w)"
    by (simp_all add: default_param_def)
  note run = createRouter_supplied [OF assms d l, of this]
  show "\<exists>res. state_of (returned_promise (createRouter this arg intro w)) = Fulfilled res
           \<and> res_router res = JObj r"
    by (simp add: run Let_def returned_promise_def state_of_def)
  show "router (instance_after (createRouter this arg intro w)) = JObj r"
    by (simp add: run Let_def instance_after_def)
  show "routers (world_after (createRouter this arg intro w))
          = (routers w)[r := routers w ! r
              @ concat (map (\<lambda>name. [(''/'' @ name, name), (''/'' @ name @ ''/:id'', name)])
                          (Object_keys (intro_tables intro)))]"
    by (simp add: run Let_def world_after_def)
next
  assume a: "arg = None"
  then have d: "\<not> truthy (default_param Undefined arg)"
    by (simp add: default_param_def)
  note run = createRouter_fresh [OF assms d, of this w]
  show "\<exists>res. state_of (returned_promise (createRouter this arg intro w)) = Fulfilled res
           \<and> res_router res = JObj (length (routers w))"
    by (simp add: run Let_def returned_promise_def state_of_def)
  show "router (instance_after (createRouter this arg intro w)) = JObj (length (routers w))"
    by (simp add: run Let_def instance_after_def)
  show "routers (world_after (createRouter this arg intro w))
          = routers w
            @ [concat (map (\<lambda>name. [(''/'' @ name, name), (''/'' @ name @ ''/:id'', name)])
                         (Object_keys (intro_tables intro)))]"
    by (simp add: run Let_def world_after_def)
qed

theorem createRouter_mounts_on_supplied_or_new_router_witness:
  "\<not> truthy (intro_error shop_db)
   \<and> (0::nat) < length (routers host_world)
   \<and> (\<exists>res. state_of (returned_promise (createRouter shop_rest (Some (JObj 0)) shop_db host_world))
                 = Fulfilled res \<and> res_router res = JObj 0)
   \<and> routers (world_after (createRouter shop_rest (Some (JObj 0)) shop_db host_world))
       = [[(''/health'', ''status''),
           (''/users'', ''users''), (''/users/:id'', ''users''),
           (''/orders'', ''orders''), (''/orders/:id'', ''orders'')]]
   \<and> (\<exists>res. state_of (returned_promise (createRouter shop_rest None shop_db host_world))
                 = Fulfilled res \<and> res_router res = JObj 1)
   \<and> routers (world_after (createRouter shop_rest None shop_db host_world))
       = [[(''/health'', ''status'')],
          [(''/users'', ''users''), (''/users/:id'', ''users''),
           (''/orders'', ''orders''), (''/orders/:id'', ''orders'')]]"
proof -
  have h1: "\<not> truthy (intro_error shop_db)" by (simp add: shop_db_def)
  have k: "Object_keys (intro_tables shop_db) = [''users'', ''orders'']"
    by (simp add: shop_db_def keys_shop)
  have w: "routers host_world = [[(''/health'', ''status'')]]" by (simp add: host_world_def)
  show ?thesis
    using createRouter_mounts_on_supplied_or_new_router [OF h1, of "Some (JObj 0)" host_world shop_rest]
      createRouter_mounts_on_supplied_or_new_router [OF h1, of None host_world shop_rest]
    by (simp add: h1 k w)
qed

text \<open>
  Claim C10. A falsy argument gives the run of a missing argument: a new router is made
  and kept by the instance instead of the value, the routes go to that router alone, and
  a resolution carries that router.
\<close>

theorem createRouter_falsy_router_is_omitted:
  assumes "\<not> truthy v"
  shows "createRouter this (Some v) intro w = createRouter this None intro w
       \<and> router (instance_after (createRouter this (Some v) intro w)) = JObj (length (routers w))
       \<and> router (instance_after (createRouter this (Some v) intro w)) \<noteq> v
       \<and> routers (world_after (createRouter this (Some v) intro w))
           = routers w
             @ [if truthy (intro_error intro) then []
                else concat (map (\<lambda>name. [(''/'' @ name, name), (''/'' @ name @ ''/:id'', name)])
                               (Object_keys (intro_tables intro)))]
       \<and> (\<not> truthy (intro_error intro) \<longrightarrow>
            (\<exists>res. state_of (returned_promise (createRouter this (Some v) intro w)) = Fulfilled res
                   \<and> res_router res = JObj (length (routers w))))"
proof -
  have d: "\<not> truthy (default_param Undefined (Some v))"
    using assms by (simp add: default_param_def)
  have eq: "createRouter this (Some v) intro w = createRouter this None intro w"
    using assms by (simp add: createRouter_def default_param_def)
  have ne: "JObj (length (routers w)) \<noteq> v"
    using assms by auto
  have rest: "router (instance_after (createRouter this (Some v) intro w)) = JObj (length (routers w))
       \<and> router (instance_after (createRouter this (Some v) intro w)) \<noteq> v
       \<and> routers (world_after (createRouter this (Some v) intro w))
           = routers w
             @ [if truthy (intro_error intro) then []
                else concat (map (\<lambda>name. [(''/'' @ name, name), (''/'' @ name @ ''/:id'', name)])
                               (Object_keys (intro_tables intro)))]
       \<and> (\<not> truthy (intro_error intro) \<longrightarrow>
            (\<exists>res. state_of (returned_promise (createRouter this (Some v) intro w)) = Fulfilled res
                   \<and> res_router res = JObj (length (routers w))))"
  proof (cases "truthy (intro_error intro)")
    case True
    show ?thesis
      using d ne True
      by (simp add: createRouter_rejects [OF True, of this "Some v" w] instance_after_def
          world_after_def)
  next
    case False
    show ?thesis
      using ne False
      by (simp add: createRouter_fresh [OF False d, of this w] Let_def instance_after_def
          world_after_def returned_promise_def state_of_def)
  qed
  from eq rest show ?thesis by (rule conjI)
qed

theorem createRouter_falsy_router_is_omitted_witness:
  "\<not> truthy Undefined \<and> \<not> truthy Null \<and> \<not> truthy (JBool False) \<and> \<not> truthy (JNum 0)
   \<and> \<not> truthy (JStr [])
   \<and> createRouter shop_rest (Some Undefined) shop_db host_world
       = createRouter shop_rest None shop_db host_world
   \<and> createRouter shop_rest (Some Null) shop_db host_world
       = createRouter shop_rest None shop_db host_world
   \<and> createRouter shop_rest (Some (JBool False)) shop_db host_world
       = createRouter shop_rest None shop_db host_world
   \<and> createRouter shop_rest (Some (JStr [])) shop_db host_world
       = createRouter shop_rest None shop_db host_world
   \<and> createRouter shop_rest (Some (JNum 0)) shop_db host_world
       = createRouter shop_rest None shop_db host_world
   \<and> router (instance_after (createRouter shop_rest (Some (JNum 0)) shop_db host_world)) = JObj 1
   \<and> routers (world_after (createRouter shop_rest (Some (JNum 0)) shop_db host_world))
       = [[(''/health'', ''status'')],
          [(''/users'', ''users''), (''/users/:id'', ''users''),
           (''/orders'', ''orders''), (''/orders/:id'', ''orders'')]]"
proof -
  have h: "\<not> truthy Undefined" "\<not> truthy Null" "\<not> truthy (JBool False)" "\<not> truthy (JNum 0)"
    "\<not> truthy (JStr [])"
    by simp_all
  have e: "\<not> truthy (intro_error shop_db)" by (simp add: shop_db_def)
  have k: "Object_keys (intro_tables shop_db) = [''users'', ''orders'']"
    by (simp add: shop_db_def keys_shop)
  have w: "routers host_world = [[(''/health'', ''status'')]]" by (simp add: host_world_def)
  show ?thesis
    using createRouter_falsy_router_is_omitted [OF h(1), of shop_rest shop_db host_world]
      createRouter_falsy_router_is_omitted [OF h(2), of shop_rest shop_db host_world]
      createRouter_falsy_router_is_omitted [OF h(3), of shop_rest shop_db host_world]
      createRouter_falsy_router_is_omitted [OF h(5), of shop_rest shop_db host_world]
      createRouter_falsy_router_is_omitted [OF h(4), of shop_rest shop_db host_world]
    by (auto simp add: e k w)
qed

lemma default_param_idem:
  "default_param Undefined (Some (default_param Undefined arg)) = default_param Undefined arg"
  by (simp add: default_param_def split: option.splits)

lemma createRouter_arg:
  "default_param Undefined arg = default_param Undefined arg'
   \<Longrightarrow> createRouter this arg intro w = createRouter this arg' intro w"
  by (simp add: createRouter_def)

text \<open>
  Claim C8. The static method \<open>create\<close> gives, for all arguments (the router may be left
  out), the run of \<open>createRouter\<close> with that router on a newly constructed instance.
\<close>

theorem RESTRouter_create_is_new_then_createRouter:
  "RESTRouter_create db u p opts arg intro w
     = createRouter (RESTRouter_new db u p opts) arg intro w"
  unfolding RESTRouter_create_def Let_def
  by (rule createRouter_arg) (rule default_param_idem)

text \<open>
  Claim C9. Each top-level key of the instance's options holds the caller's value when
  the caller supplies the key, whole, and the default otherwise; a \<open>define\<close> object of the
  caller stands in place of the default one, nothing of which is kept.
\<close>

theorem constructor_merges_options_at_top_level:
  "options (RESTRouter_new db u p opts) key =
     (case (case opts of None \<Rightarrow> None | Some supplied \<Rightarrow> supplied key) of
        Some v \<Rightarrow> Some v
      | None \<Rightarrow>
          [''dialect'' \<mapsto> OStr ''mysql'',
           ''logging'' \<mapsto> OBool False,
           ''define'' \<mapsto> OObj [''timestamps'' \<mapsto> OBool False, ''freezeTableName'' \<mapsto> OBool True],
           ''closeConnectionAutomatically'' \<mapsto> OBool False,
           ''directory'' \<mapsto> OStr ''models''] key)"
  by (cases opts)
     (simp_all add: RESTRouter_new_def Object_assign_def default_options_def default_define_def
        map_add_def split: option.splits)

theorem constructor_merges_options_at_top_level_witness:
  "options (RESTRouter_new ''shop'' ''admin'' ''123456''
              (Some [''define'' \<mapsto> OObj [''underscored'' \<mapsto> OBool True], ''port'' \<mapsto> ONum 3306])
            :: string list rest_router) ''define''
     = Some (OObj [''underscored'' \<mapsto> OBool True])
   \<and> options (RESTRouter_new ''shop'' ''admin'' ''123456''
              (Some [''define'' \<mapsto> OObj [''underscored'' \<mapsto> OBool True], ''port'' \<mapsto> ONum 3306])
            :: string list rest_router) ''dialect''
     = Some (OStr ''mysql'')
   \<and> options (RESTRouter_new ''shop'' ''admin'' ''123456''
              (Some [''define'' \<mapsto> OObj [''underscored'' \<mapsto> OBool True], ''port'' \<mapsto> ONum 3306])
            :: string list rest_router) ''port''
     = Some (ONum 3306)
   \<and> options (RESTRouter_new ''shop'' ''admin'' ''123456'' None :: string list rest_router) ''define''
     = Some (OObj [''timestamps'' \<mapsto> OBool False, ''freezeTableName'' \<mapsto> OBool True])"
  using constructor_merges_options_at_top_level
      [of "''shop''" "''admin''" "''123456''"
          "Some [''define'' \<mapsto> OObj [''underscored'' \<mapsto> OBool True], ''port'' \<mapsto> ONum 3306]"
          "''define''", where ?'a = "string list"]
    constructor_merges_options_at_top_level
      [of "''shop''" "''admin''" "''123456''"
          "Some [''define'' \<mapsto> OObj [''underscored'' \<mapsto> OBool True], ''port'' \<mapsto> ONum 3306]"
          "''dialect''", where ?'a = "string list"]
    constructor_merges_options_at_top_level
      [of "''shop''" "''admin''" "''123456''"
          "Some [''define'' \<mapsto> OObj [''underscored'' \<mapsto> OBool True], ''port'' \<mapsto> ONum 3306]"
          "''port''", where ?'a = "string list"]
    constructor_merges_options_at_top_level
      [of "''shop''" "''admin''" "''123456''" None "''define''", where ?'a = "string list"]
  by simp

lemma keys_colliding: "Object_keys colliding_tables = [''a'', ''a/:id'']"
  by (simp add: Object_keys_def colliding_tables_def Obj_inverse)

lemma props_colliding:
  "get_prop colliding_tables ''a'' = Some [''id'']"
  "get_prop colliding_tables ''a/:id'' = Some [''id'']"
  by (simp_all add: get_prop_def colliding_tables_def Obj_inverse)

text \<open>
  Claim C2, as stated, fails: the tables \<open>a\<close> and \<open>a/:id\<close> both derive the path
  \<open>/a/:id\<close> (the item path of the first is the collection path of the second), and the
  run is fulfilled with a resource for each.
\<close>

theorem path_collision_counterexample:
  "state_of (returned_promise (createRouter shop_rest None colliding_db host_world))
     = Fulfilled
         \<lparr>res_rest = instance_after (createRouter shop_rest None colliding_db host_world),
          res_router = JObj 1,
          res_resources =
            [\<lparr>model = \<lparr>model_name = ''a'', attributes = Some [''id'']\<rparr>,
              endpoints = [''/a'', ''/a/:id'']\<rparr>,
             \<lparr>model = \<lparr>model_name = ''a/:id'', attributes = Some [''id'']\<rparr>,
              endpoints = [''/a/:id'', ''/a/:id/:id'']\<rparr>]\<rparr>"
proof -
  have e: "\<not> truthy (intro_error colliding_db)" by (simp add: colliding_db_def)
  have d: "\<not> truthy (default_param Undefined None)" by (simp add: default_param_def)
  have t: "intro_tables colliding_db = colliding_tables" by (simp add: colliding_db_def)
  show ?thesis
    by (simp add: createRouter_fresh [OF e d] Let_def returned_promise_def instance_after_def
        state_of_def t keys_colliding props_colliding host_world_def)
qed

text \<open>
  Claim C2, amended. The code checks no path against another: a run without
  introspection error in which two distinct table names derive a common endpoint path is
  fulfilled, with one resource per table, and both tables' resources carry that path. The
  common path is the item path of one table and the collection path of the other, whose
  name is the first name followed by \<open>/:id\<close>.
\<close>

theorem createRouter_resolves_despite_shared_path:
  assumes "\<not> truthy (intro_error intro)" and "usable_router w arg"
    and "n1 \<in> set (Object_keys (intro_tables intro))"
    and "n2 \<in> set (Object_keys (intro_tables intro))"
    and "n1 \<noteq> n2"
    and "path \<in> set [''/'' @ n1, ''/'' @ n1 @ ''/:id'']"
    and "path \<in> set [''/'' @ n2, ''/'' @ n2 @ ''/:id'']"
  shows "\<exists>res r1 r2. state_of (returned_promise (createRouter this arg intro w)) = Fulfilled res
           \<and> length (res_resources res) = length (Object_keys (intro_tables intro))
           \<and> r1 \<in> set (res_resources res) \<and> model_name (model r1) = n1 \<and> path \<in> set (endpoints r1)
           \<and> r2 \<in> set (res_resources res) \<and> model_name (model r2) = n2 \<and> path \<in> set (endpoints r2)
           \<and> (n1 = n2 @ ''/:id'' \<or> n2 = n1 @ ''/:id'')"
proof -
  let ?mk = "\<lambda>n. \<lparr>model = \<lparr>model_name = n, attributes = get_prop (intro_tables intro) n\<rparr>,
                   endpoints = [''/'' @ n, ''/'' @ n @ ''/:id'']\<rparr>"
  let ?rs = "map ?mk (Object_keys (intro_tables intro))"
  have run: "\<exists>res. state_of (returned_promise (createRouter this arg intro w)) = Fulfilled res
               \<and> res_resources res = ?rs"
    using assms(2)
  proof (cases rule: usable_router_cases)
    case (supplied r)
    show ?thesis
      by (simp add: createRouter_supplied [OF assms(1) supplied] Let_def returned_promise_def
          state_of_def)
  next
    case fresh
    show ?thesis
      by (simp add: createRouter_fresh [OF assms(1) fresh] Let_def returned_promise_def
          state_of_def)
  qed
  then obtain res where res: "state_of (returned_promise (createRouter this arg intro w)) = Fulfilled res"
      "res_resources res = ?rs"
    by blast
  have m1: "?mk n1 \<in> set ?rs" using assms(3) by (simp add: image_iff)
  have m2: "?mk n2 \<in> set ?rs" using assms(4) by (simp add: image_iff)
  show ?thesis
  proof (intro exI conjI)
    show "state_of (returned_promise (createRouter this arg intro w)) = Fulfilled res" by (rule res(1))
    show "length (res_resources res) = length (Object_keys (intro_tables intro))" by (simp add: res(2))
    show "?mk n1 \<in> set (res_resources res)" using m1 by (simp only: res(2))
    show "?mk n2 \<in> set (res_resources res)" using m2 by (simp only: res(2))
    show "model_name (model (?mk n1)) = n1" by simp
    show "model_name (model (?mk n2)) = n2" by simp
    show "path \<in> set (endpoints (?mk n1))" using assms(6) by simp
    show "path \<in> set (endpoints (?mk n2))" using assms(7) by simp
    show "n1 = n2 @ ''/:id'' \<or> n2 = n1 @ ''/:id''" using assms(5,6,7) by auto
  qed
qed

theorem createRouter_resolves_despite_shared_path_witness:
  "\<not> truthy (intro_error colliding_db) \<and> usable_router host_world None
   \<and> ''a'' \<in> set (Object_keys (intro_tables colliding_db))
   \<and> ''a/:id'' \<in> set (Object_keys (intro_tables colliding_db))
   \<and> ''a'' \<noteq> ''a/:id''
   \<and> ''/a/:id'' \<in> set [''/'' @ ''a'', ''/'' @ ''a'' @ ''/:id'']
   \<and> ''/a/:id'' \<in> set [''/'' @ ''a/:id'', ''/'' @ ''a/:id'' @ ''/:id'']
   \<and> (\<exists>res r1 r2. state_of (returned_promise (createRouter shop_rest None colliding_db host_world))
                      = Fulfilled res
          \<and> length (res_resources res) = 2
          \<and> r1 \<in> set (res_resources res) \<and> model_name (model r1) = ''a''
          \<and> ''/a/:id'' \<in> set (endpoints r1)
          \<and> r2 \<in> set (res_resources res) \<and> model_name (model r2) = ''a/:id''
          \<and> ''/a/:id'' \<in> set (endpoints r2))
   \<and> ''a/:id'' = ''a'' @ ''/:id''"
proof -
  have h1: "\<not> truthy (intro_error colliding_db)" by (simp add: colliding_db_def)
  have h2: "usable_router host_world None" by (simp add: usable_router_def default_param_def)
  have k: "Object_keys (intro_tables colliding_db) = [''a'', ''a/:id'']"
    by (simp add: colliding_db_def keys_colliding)
  have h3: "''a'' \<in> set (Object_keys (intro_tables colliding_db))" by (simp add: k)
  have h4: "''a/:id'' \<in> set (Object_keys (intro_tables colliding_db))" by (simp add: k)
  have h5: "''a'' \<noteq> ''a/:id''" by simp
  have h6: "''/a/:id'' \<in> set [''/'' @ ''a'', ''/'' @ ''a'' @ ''/:id'']" by simp
  have h7: "''/a/:id'' \<in> set [''/'' @ ''a/:id'', ''/'' @ ''a/:id'' @ ''/:id'']" by simp
  show ?thesis
    using createRouter_resolves_despite_shared_path [OF h1 h2 h3 h4 h5 h6 h7, of shop_rest]
    by (simp add: h1 h2 k numeral_2_eq_2)
qed

lemma createRouter_phases:
  "createRouter this arg intro w =
     (case createRouter_sync this arg w of
        (a, this3, w1) \<Rightarrow>
          (case SequelizeAuto_run intro a of
             (error, a') \<Rightarrow> callback error (this3\<lparr>auto := Some a'\<rparr>) w1))"
  by (simp add: createRouter_def createRouter_sync_def Let_def split: prod.splits)

text \<open>
  In two overlapping calls the first callback completes the run of the second call, and
  the second callback then fires on the instance that run has filled.
\<close>

lemma overlapping_calls_second_callback:
  "overlapping_calls this arg1 arg2 intro1 intro2 w =
     (case createRouter_sync this arg1 w of
        (a1, thisA, wA) \<Rightarrow>
          (let run = createRouter thisA arg2
                       \<lparr>intro_error = intro_error intro1, intro_tables = intro_tables intro2\<rparr> wA;
               again = callback (intro_error intro2) (instance_after run) (world_after run)
           in \<lparr>first_promise = returned_promise run,
               second_promise = returned_promise again,
               instance_end = instance_after again,
               world_end = world_after again\<rparr>))"
  by (simp add: overlapping_calls_def createRouter_phases Let_def SequelizeAuto_run_def
      returned_promise_def instance_after_def world_after_def split: prod.splits)

lemma models_foldl_define_any:
  assumes "distinct ks"
  shows "models (foldl (\<lambda>sq n. sequelize_define n (f n) sq) sq ks)
           = filter (\<lambda>m. model_name m \<notin> set ks) (models sq)
             @ map (\<lambda>n. \<lparr>model_name = n, attributes = f n\<rparr>) ks"
  using assms
proof (induction ks arbitrary: sq)
  case Nil
  then show ?case by simp
next
  case (Cons k ks)
  have first: "models (sequelize_define k (f k) sq)
                 = filter (\<lambda>m. model_name m \<noteq> k) (models sq) @ [\<lparr>model_name = k, attributes = f k\<rparr>]"
    by (simp add: sequelize_define_def)
  have k: "k \<notin> set ks" and d: "distinct ks" using Cons.prems by simp_all
  have same: "(\<lambda>m. model_name m \<notin> set ks \<and> model_name m \<noteq> k)
                = (\<lambda>m::'a model. model_name m \<noteq> k \<and> model_name m \<notin> set ks)"
    by auto
  show ?case
    using k by (simp add: Cons.IH [OF d] first same)
qed

lemma filter_map_unique:
  assumes "distinct ks" and "n \<in> set ks" and "\<And>k. g (h k) = k"
  shows "filter (\<lambda>x. g x = n) (map h ks) = [h n]"
  using assms(1,2)
proof (induction ks)
  case Nil
  then show ?case by simp
next
  case (Cons k ks)
  show ?case
  proof (cases "k = n")
    case True
    then have "n \<notin> set ks" using Cons.prems(1) by simp
    then have "filter (\<lambda>x. g x = n) (map h ks) = []"
      by (auto simp add: filter_empty_conv assms(3))
    then show ?thesis using True by (simp add: assms(3))
  next
    case False
    then show ?thesis using Cons by (simp add: assms(3))
  qed
qed

lemma registry_holds_one:
  assumes "name \<in> set (Object_keys tbls)"
  shows "filter (\<lambda>m. model_name m = name)
           (models (foldl (\<lambda>sq n. sequelize_define n (get_prop tbls n) sq) sq (Object_keys tbls)))
         = [\<lparr>model_name = name, attributes = get_prop tbls name\<rparr>]"
proof -
  have none: "filter (\<lambda>m. model_name m = name)
                (filter (\<lambda>m. model_name m \<notin> set (Object_keys tbls)) (models sq)) = []"
    using assms by (auto simp add: filter_empty_conv)
  have one: "filter (\<lambda>m. model_name m = name)
               (map (\<lambda>n. \<lparr>model_name = n, attributes = get_prop tbls n\<rparr>) (Object_keys tbls))
             = [\<lparr>model_name = name, attributes = get_prop tbls name\<rparr>]"
    by (rule filter_map_unique [OF distinct_Object_keys assms]) simp
  show ?thesis
    by (simp only: models_foldl_define_any [OF distinct_Object_keys] filter_append none one append_Nil)
qed

text \<open>
  Runs that do not overlap never register a name on a registry that holds it: each run
  starts from a new registry and an empty resource list, so after two runs in a row the
  registry holds one model of the name and the resource list holds the table once.
\<close>

lemma createRouter_sequential_runs_register_once:
  assumes "\<not> truthy (intro_error intro1)" and "usable_router w arg1"
    and "\<not> truthy (intro_error intro2)"
    and "usable_router (world_after (createRouter this arg1 intro1 w)) arg2"
    and "name \<in> set (Object_keys (intro_tables intro1))"
    and "name \<in> set (Object_keys (intro_tables intro2))"
  shows "\<exists>a1 a2 res.
           auto (instance_after (createRouter this arg1 intro1 w)) = Some a1
         \<and> filter (\<lambda>m. model_name m = name) (models (sequelize a1))
             = [\<lparr>model_name = name, attributes = get_prop (intro_tables intro1) name\<rparr>]
         \<and> auto (instance_after
                   (createRouter (instance_after (createRouter this arg1 intro1 w)) arg2 intro2
                      (world_after (createRouter this arg1 intro1 w)))) = Some a2
         \<and> filter (\<lambda>m. model_name m = name) (models (sequelize a2))
             = [\<lparr>model_name = name, attributes = get_prop (intro_tables intro2) name\<rparr>]
         \<and> state_of (returned_promise
                   (createRouter (instance_after (createRouter this arg1 intro1 w)) arg2 intro2
                      (world_after (createRouter this arg1 intro1 w)))) = Fulfilled res
         \<and> filter (\<lambda>r. model_name (model r) = name) (res_resources res)
             = [\<lparr>model = \<lparr>model_name = name, attributes = get_prop (intro_tables intro2) name\<rparr>,
                 endpoints = [''/'' @ name, ''/'' @ name @ ''/:id'']\<rparr>]"
proof -
  have once: "\<exists>a res. auto (instance_after (createRouter t arg intro v)) = Some a
         \<and> filter (\<lambda>m. model_name m = name) (models (sequelize a))
             = [\<lparr>model_name = name, attributes = get_prop (intro_tables intro) name\<rparr>]
         \<and> state_of (returned_promise (createRouter t arg intro v)) = Fulfilled res
         \<and> filter (\<lambda>r. model_name (model r) = name) (res_resources res)
             = [\<lparr>model = \<lparr>model_name = name, attributes = get_prop (intro_tables intro) name\<rparr>,
                 endpoints = [''/'' @ name, ''/'' @ name @ ''/:id'']\<rparr>]"
    if ok: "\<not> truthy (intro_error intro)" and us: "usable_router v arg"
      and mem: "name \<in> set (Object_keys (intro_tables intro))"
    for t :: "'a rest_router" and arg intro v
  proof -
    let ?ks = "Object_keys (intro_tables intro)"
    have m: "filter (\<lambda>m. model_name m = name)
               (models (foldl (\<lambda>sq n. sequelize_define n (get_prop (intro_tables intro) n) sq)
                         \<lparr>models = []\<rparr> ?ks))
             = [\<lparr>model_name = name, attributes = get_prop (intro_tables intro) name\<rparr>]"
      by (rule registry_holds_one [OF mem])
    have r: "filter (\<lambda>r. model_name (model r) = name)
               (map (\<lambda>n. \<lparr>model = \<lparr>model_name = n, attributes = get_prop (intro_tables intro) n\<rparr>,
                          endpoints = [''/'' @ n, ''/'' @ n @ ''/:id'']\<rparr>) ?ks)
             = [\<lparr>model = \<lparr>model_name = name, attributes = get_prop (intro_tables intro) name\<rparr>,
                 endpoints = [''/'' @ name, ''/'' @ name @ ''/:id'']\<rparr>]"
      by (rule filter_map_unique [OF distinct_Object_keys mem]) simp
    from us show ?thesis
    proof (cases rule: usable_router_cases)
      case (supplied q)
      show ?thesis
        using m r
        by (simp add: createRouter_supplied [OF ok supplied] Let_def returned_promise_def
            instance_after_def state_of_def)
    next
      case fresh
      show ?thesis
        using m r
        by (simp add: createRouter_fresh [OF ok fresh] Let_def returned_promise_def
            instance_after_def state_of_def)
    qed
  qed
  from once [OF assms(1,2,5), of this]
  obtain a1 where first: "auto (instance_after (createRouter this arg1 intro1 w)) = Some a1"
    "filter (\<lambda>m. model_name m = name) (models (sequelize a1))
       = [\<lparr>model_name = name, attributes = get_prop (intro_tables intro1) name\<rparr>]"
    by blast
  from once [OF assms(3,4,6), of "instance_after (createRouter this arg1 intro1 w)"]
  obtain a2 res where second:
    "auto (instance_after
             (createRouter (instance_after (createRouter this arg1 intro1 w)) arg2 intro2
                (world_after (createRouter this arg1 intro1 w)))) = Some a2"
    "filter (\<lambda>m. model_name m = name) (models (sequelize a2))
       = [\<lparr>model_name = name, attributes = get_prop (intro_tables intro2) name\<rparr>]"
    "state_of (returned_promise
             (createRouter (instance_after (createRouter this arg1 intro1 w)) arg2 intro2
                (world_after (createRouter this arg1 intro1 w)))) = Fulfilled res"
    "filter (\<lambda>r. model_name (model r) = name) (res_resources res)
       = [\<lparr>model = \<lparr>model_name = name, attributes = get_prop (intro_tables intro2) name\<rparr>,
           endpoints = [''/'' @ name, ''/'' @ name @ ''/:id'']\<rparr>]"
    by blast
  from first second show ?thesis by blast
qed

lemma props_shop:
  "get_prop shop_tables ''users'' = Some [''id'', ''name'']"
  "get_prop shop_tables ''orders'' = Some [''id'', ''user_id'']"
  by (simp_all add: get_prop_def shop_tables_def Obj_inverse)





section \<open>A router argument of another kind\<close>

text \<open>
  A truthy argument that is no router is taken as the router: the first
  \<^verbatim>\<open>epilogue.resource\<close> throws on it and the promise is left pending; with no table
  nothing is mounted and the promise is fulfilled with that value as the router.
\<close>

lemma epilogue_resource_no_router:
  assumes "\<And>r. epilogue_app w = JObj r \<Longrightarrow> \<not> r < length (routers w)"
  shows "epilogue_resource (Some m) eps w = Inl TypeError"
  using assms by (cases "epilogue_app w") (simp_all add: epilogue_resource_def)

lemma createRouter_non_router_argument:
  assumes "\<not> truthy (intro_error intro)"
    and "truthy (default_param Undefined arg)"
    and "\<And>r. default_param Undefined arg = JObj r \<Longrightarrow> \<not> r < length (routers w)"
    and "Object_keys (intro_tables intro) \<noteq> []"
  shows "returned_promise (createRouter this arg intro w)
           = \<lparr>settle_calls = [], uncaught = Some TypeError\<rparr>"
proof -
  obtain k ks where ks: "Object_keys (intro_tables intro) = k # ks"
    using assms(4) by (cases "Object_keys (intro_tables intro)") auto
  let ?w1 = "w\<lparr>epilogue_app := default_param Undefined arg\<rparr>"
  have thrown: "epilogue_resource (Some m) eps ?w1 = Inl TypeError" for m :: "'a model" and eps
    by (rule epilogue_resource_no_router) (use assms(3) in simp)
  show ?thesis
    using assms(1,2)
    by (simp add: createRouter_def Let_def SequelizeAuto_run_def SequelizeAuto_new_def
        callback_def epilogue_initialize_def ks add_table_def models_lookup_define thrown
        returned_promise_def)
qed

lemma createRouter_no_table:
  assumes "\<not> truthy (intro_error intro)"
    and "truthy (default_param Undefined arg)"
    and "Object_keys (intro_tables intro) = []"
  shows "createRouter this arg intro w =
    (let rr = this\<lparr>auto := Some ((SequelizeAuto_new (database this) (user this) (password this)
                                      (options this))\<lparr>tables := intro_tables intro\<rparr>),
                  router := default_param Undefined arg, resources := []\<rparr>
     in (\<lparr>settle_calls = [Resolve \<lparr>res_rest = rr, res_router = default_param Undefined arg,
                                       res_resources = []\<rparr>],
          uncaught = None\<rparr>,
         rr, w\<lparr>epilogue_app := default_param Undefined arg\<rparr>))"
  using assms
  by (cases this)
     (simp add: createRouter_def Let_def SequelizeAuto_run_def SequelizeAuto_new_def callback_def
        epilogue_initialize_def)

lemma not_usable_router:
  assumes "\<not> usable_router w arg"
  shows "truthy (default_param Undefined arg)"
    and "default_param Undefined arg = JObj r \<Longrightarrow> \<not> r < length (routers w)"
  using assms unfolding usable_router_def
  by (cases "default_param Undefined arg"; simp)+

text \<open>
  Claim C3, as stated, fails: called with the number 5 as router on a database with
  tables, \<^verbatim>\<open>createRouter\<close> returns a promise that no call settles; the \<^verbatim>\<open>TypeError\<close> of
  \<^verbatim>\<open>epilogue.resource\<close> leaves the callback.
\<close>

theorem unusable_router_counterexample:
  "settle_calls (returned_promise (createRouter shop_rest (Some (JNum 5)) shop_db host_world)) = []
   \<and> state_of (returned_promise (createRouter shop_rest (Some (JNum 5)) shop_db host_world)) = Pending
   \<and> uncaught (returned_promise (createRouter shop_rest (Some (JNum 5)) shop_db host_world))
       = Some TypeError"
proof -
  have e: "\<not> truthy (intro_error shop_db)" by (simp add: shop_db_def)
  have t: "truthy (default_param Undefined (Some (JNum 5)))" by (simp add: default_param_def)
  have n: "default_param Undefined (Some (JNum 5)) = JObj r \<Longrightarrow> \<not> r < length (routers host_world)"
    for r by (simp add: default_param_def)
  have k: "Object_keys (intro_tables shop_db) \<noteq> []" by (simp add: shop_db_def keys_shop)
  show ?thesis
    by (simp add: createRouter_non_router_argument [OF e t n k] state_of_def)
qed

text \<open>
  Claim C3, amended. The promise is settled at most once, in every invocation. It is
  rejected with the introspection error when that is truthy; then the instance holds no
  resource and no route is mounted (at most the new, empty router is added to the store).
  Without error and with a usable router argument it is fulfilled with the instance, its
  router, on which the routes of every table are mounted, and the resource of every
  table. Without error and with a truthy argument that is no router, it is fulfilled with
  that value and no resource when there is no table, and never settled when there is one.
\<close>

theorem createRouter_settles_unless_router_unusable:
  "length (settle_calls (returned_promise (createRouter this arg intro w))) \<le> 1
   \<and> (truthy (intro_error intro) \<longrightarrow>
      settle_calls (returned_promise (createRouter this arg intro w)) = [Reject (intro_error intro)]
    \<and> uncaught (returned_promise (createRouter this arg intro w)) = None
    \<and> resources (instance_after (createRouter this arg intro w)) = []
    \<and> routers (world_after (createRouter this arg intro w))
        = (if truthy (default_param Undefined arg) then routers w else routers w @ [[]]))
   \<and> (\<not> truthy (intro_error intro) \<and> usable_router w arg \<longrightarrow>
      settle_calls (returned_promise (createRouter this arg intro w))
        = [Resolve \<lparr>res_rest = instance_after (createRouter this arg intro w),
                    res_router = router (instance_after (createRouter this arg intro w)),
                    res_resources =
                      map (\<lambda>name. \<lparr>model = \<lparr>model_name = name,
                                               attributes = get_prop (intro_tables intro) name\<rparr>,
                                      endpoints = [''/'' @ name, ''/'' @ name @ ''/:id'']\<rparr>)
                        (Object_keys (intro_tables intro))\<rparr>]
    \<and> uncaught (returned_promise (createRouter this arg intro w)) = None
    \<and> (\<exists>r. router (instance_after (createRouter this arg intro w)) = JObj r
           \<and> r < length (routers (world_after (createRouter this arg intro w)))
           \<and> routers (world_after (createRouter this arg intro w)) ! r
               = (if r < length (routers w) then routers w ! r else [])
                 @ concat (map (\<lambda>name. [(''/'' @ name, name), (''/'' @ name @ ''/:id'', name)])
                             (Object_keys (intro_tables intro)))))
   \<and> (\<not> truthy (intro_error intro) \<and> \<not> usable_router w arg
        \<and> Object_keys (intro_tables intro) = [] \<longrightarrow>
      settle_calls (returned_promise (createRouter this arg intro w))
        = [Resolve \<lparr>res_rest = instance_after (createRouter this arg intro w),
                    res_router = default_param Undefined arg,
                    res_resources = []\<rparr>]
    \<and> uncaught (returned_promise (createRouter this arg intro w)) = None)
   \<and> (\<not> truthy (intro_error intro) \<and> \<not> usable_router w arg
        \<and> Object_keys (intro_tables intro) \<noteq> [] \<longrightarrow>
      settle_calls (returned_promise (createRouter this arg intro w)) = []
    \<and> uncaught (returned_promise (createRouter this arg intro w)) = Some TypeError)"
proof -
  have branches:
    "(truthy (intro_error intro) \<longrightarrow>
      settle_calls (returned_promise (createRouter this arg intro w)) = [Reject (intro_error intro)]
    \<and> uncaught (returned_promise (createRouter this arg intro w)) = None
    \<and> resources (instance_after (createRouter this arg intro w)) = []
    \<and> routers (world_after (createRouter this arg intro w))
        = (if truthy (default_param Undefined arg) then routers w else routers w @ [[]]))
   \<and> (\<not> truthy (intro_error intro) \<and> usable_router w arg \<longrightarrow>
      settle_calls (returned_promise (createRouter this arg intro w))
        = [Resolve \<lparr>res_rest = instance_after (createRouter this arg intro w),
                    res_router = router (instance_after (createRouter this arg intro w)),
                    res_resources =
                      map (\<lambda>name. \<lparr>model = \<lparr>model_name = name,
                                               attributes = get_prop (intro_tables intro) name\<rparr>,
                                      endpoints = [''/'' @ name, ''/'' @ name @ ''/:id'']\<rparr>)
                        (Object_keys (intro_tables intro))\<rparr>]
    \<and> uncaught (returned_promise (createRouter this arg intro w)) = None
    \<and> (\<exists>r. router (instance_after (createRouter this arg intro w)) = JObj r
           \<and> r < length (routers (world_after (createRouter this arg intro w)))
           \<and> routers (world_after (createRouter this arg intro w)) ! r
               = (if r < length (routers w) then routers w ! r else [])
                 @ concat (map (\<lambda>name. [(''/'' @ name, name), (''/'' @ name @ ''/:id'', name)])
                             (Object_keys (intro_tables intro)))))
   \<and> (\<not> truthy (intro_error intro) \<and> \<not> usable_router w arg
        \<and> Object_keys (intro_tables intro) = [] \<longrightarrow>
      settle_calls (returned_promise (createRouter this arg intro w))
        = [Resolve \<lparr>res_rest = instance_after (createRouter this arg intro w),
                    res_router = default_param Undefined arg,
                    res_resources = []\<rparr>]
    \<and> uncaught (returned_promise (createRouter this arg intro w)) = None)
   \<and> (\<not> truthy (intro_error intro) \<and> \<not> usable_router w arg
        \<and> Object_keys (intro_tables intro) \<noteq> [] \<longrightarrow>
      settle_calls (returned_promise (createRouter this arg intro w)) = []
    \<and> uncaught (returned_promise (createRouter this arg intro w)) = Some TypeError)"
  proof (intro conjI impI)
    assume e: "truthy (intro_error intro)"
    note run = createRouter_rejects [OF e, of this arg w]
    show "settle_calls (returned_promise (createRouter this arg intro w)) = [Reject (intro_error intro)]"
      by (simp add: run returned_promise_def)
    show "uncaught (returned_promise (createRouter this arg intro w)) = None"
      by (simp add: run returned_promise_def)
    show "resources (instance_after (createRouter this arg intro w)) = []"
      by (simp add: run instance_after_def)
    show "routers (world_after (createRouter this arg intro w))
          = (if truthy (default_param Undefined arg) then routers w else routers w @ [[]])"
      by (simp add: run world_after_def)
  next
    assume "\<not> truthy (intro_error intro) \<and> usable_router w arg"
    then have e: "\<not> truthy (intro_error intro)" and u: "usable_router w arg" by simp_all
    have all: "settle_calls (returned_promise (createRouter this arg intro w))
          = [Resolve \<lparr>res_rest = instance_after (createRouter this arg intro w),
                      res_router = router (instance_after (createRouter this arg intro w)),
                      res_resources =
                        map (\<lambda>name. \<lparr>model = \<lparr>model_name = name,
                                                 attributes = get_prop (intro_tables intro) name\<rparr>,
                                        endpoints = [''/'' @ name, ''/'' @ name @ ''/:id'']\<rparr>)
                          (Object_keys (intro_tables intro))\<rparr>]
      \<and> uncaught (returned_promise (createRouter this arg intro w)) = None
      \<and> (\<exists>r. router (instance_after (createRouter this arg intro w)) = JObj r
             \<and> r < length (routers (world_after (createRouter this arg intro w)))
             \<and> routers (world_after (createRouter this arg intro w)) ! r
                 = (if r < length (routers w) then routers w ! r else [])
                   @ concat (map (\<lambda>name. [(''/'' @ name, name), (''/'' @ name @ ''/:id'', name)])
                               (Object_keys (intro_tables intro))))"
      using u
    proof (cases rule: usable_router_cases)
      case (supplied r)
      show ?thesis
        using supplied(2)
        by (simp add: createRouter_supplied [OF e supplied] Let_def returned_promise_def
            instance_after_def world_after_def)
    next
      case fresh
      show ?thesis
        by (simp add: createRouter_fresh [OF e fresh] Let_def returned_promise_def
            instance_after_def world_after_def)
    qed
    from all show "settle_calls (returned_promise (createRouter this arg intro w))
          = [Resolve \<lparr>res_rest = instance_after (createRouter this arg intro w),
                      res_router = router (instance_after (createRouter this arg intro w)),
                      res_resources =
                        map (\<lambda>name. \<lparr>model = \<lparr>model_name = name,
                                                 attributes = get_prop (intro_tables intro) name\<rparr>,
                                        endpoints = [''/'' @ name, ''/'' @ name @ ''/:id'']\<rparr>)
                          (Object_keys (intro_tables intro))\<rparr>]"
      by (rule conjunct1)
    from all show "uncaught (returned_promise (createRouter this arg intro w)) = None"
      by simp
    from all show "\<exists>r. router (instance_after (createRouter this arg intro w)) = JObj r
             \<and> r < length (routers (world_after (createRouter this arg intro w)))
             \<and> routers (world_after (createRouter this arg intro w)) ! r
                 = (if r < length (routers w) then routers w ! r else [])
                   @ concat (map (\<lambda>name. [(''/'' @ name, name), (''/'' @ name @ ''/:id'', name)])
                               (Object_keys (intro_tables intro)))"
      by simp
  next
    assume "\<not> truthy (intro_error intro) \<and> \<not> usable_router w arg
          \<and> Object_keys (intro_tables intro) = []"
    then have e: "\<not> truthy (intro_error intro)" and u: "\<not> usable_router w arg"
      and k: "Object_keys (intro_tables intro) = []" by simp_all
    note run = createRouter_no_table [OF e not_usable_router(1) [OF u] k, of this]
    show "settle_calls (returned_promise (createRouter this arg intro w))
          = [Resolve \<lparr>res_rest = instance_after (createRouter this arg intro w),
                      res_router = default_param Undefined arg,
                      res_resources = []\<rparr>]"
      by (simp add: run Let_def returned_promise_def instance_after_def)
    show "uncaught (returned_promise (createRouter this arg intro w)) = None"
      by (simp add: run Let_def returned_promise_def)
  next
    assume "\<not> truthy (intro_error intro) \<and> \<not> usable_router w arg
          \<and> Object_keys (intro_tables intro) \<noteq> []"
    then have e: "\<not> truthy (intro_error intro)" and u: "\<not> usable_router w arg"
      and k: "Object_keys (intro_tables intro) \<noteq> []" by simp_all
    have run: "returned_promise (createRouter this arg intro w)
             = \<lparr>settle_calls = [], uncaught = Some TypeError\<rparr>"
      by (rule createRouter_non_router_argument [OF e not_usable_router(1) [OF u] _ k])
         (rule not_usable_router(2) [OF u])
    show "settle_calls (returned_promise (createRouter this arg intro w)) = []"
      by (simp add: run)
    show "uncaught (returned_promise (createRouter this arg intro w)) = Some TypeError"
      by (simp add: run)
  qed
  have "length (settle_calls (returned_promise (createRouter this arg intro w))) \<le> 1"
    using branches
    by (cases "truthy (intro_error intro)"; cases "usable_router w arg";
        cases "Object_keys (intro_tables intro) = []"; simp)
  then show ?thesis using branches by (rule conjI)
qed

theorem createRouter_settles_unless_router_unusable_witness:
  "truthy (intro_error failing_db)
   \<and> settle_calls (returned_promise (createRouter shop_rest None failing_db host_world))
       = [Reject (JStr ''ER_ACCESS_DENIED_ERROR'')]
   \<and> resources (instance_after (createRouter shop_rest None failing_db host_world)) = []
   \<and> routers (world_after (createRouter shop_rest None failing_db host_world))
       = [[(''/health'', ''status'')], []]
   \<and> \<not> truthy (intro_error shop_db) \<and> usable_router host_world None
   \<and> settle_calls (returned_promise (createRouter shop_rest None shop_db host_world))
       = [Resolve \<lparr>res_rest = instance_after (createRouter shop_rest None shop_db host_world),
                   res_router = router (instance_after (createRouter shop_rest None shop_db host_world)),
                   res_resources =
                     [\<lparr>model = \<lparr>model_name = ''users'', attributes = Some [''id'', ''name'']\<rparr>,
                       endpoints = [''/users'', ''/users/:id'']\<rparr>,
                      \<lparr>model = \<lparr>model_name = ''orders'', attributes = Some [''id'', ''user_id'']\<rparr>,
                       endpoints = [''/orders'', ''/orders/:id'']\<rparr>]\<rparr>]
   \<and> \<not> truthy (intro_error empty_db) \<and> \<not> usable_router host_world (Some (JNum 5))
   \<and> Object_keys (intro_tables empty_db) = []
   \<and> settle_calls (returned_promise (createRouter shop_rest (Some (JNum 5)) empty_db host_world))
       = [Resolve \<lparr>res_rest = instance_after (createRouter shop_rest (Some (JNum 5)) empty_db host_world),
                   res_router = JNum 5, res_resources = []\<rparr>]
   \<and> Object_keys (intro_tables shop_db) \<noteq> []
   \<and> settle_calls (returned_promise (createRouter shop_rest (Some (JNum 5)) shop_db host_world)) = []
   \<and> uncaught (returned_promise (createRouter shop_rest (Some (JNum 5)) shop_db host_world))
       = Some TypeError"
proof -
  have e1: "truthy (intro_error failing_db)" "intro_error failing_db = JStr ''ER_ACCESS_DENIED_ERROR''"
    by (simp_all add: failing_db_def)
  have e2: "\<not> truthy (intro_error shop_db)" by (simp add: shop_db_def)
  have e3: "\<not> truthy (intro_error empty_db)" by (simp add: empty_db_def)
  have u1: "usable_router host_world None" by (simp add: usable_router_def default_param_def)
  have u2: "\<not> usable_router host_world (Some (JNum 5))"
    by (simp add: usable_router_def default_param_def)
  have d: "default_param Undefined None = Undefined" "default_param Undefined (Some (JNum 5)) = JNum 5"
    by (simp_all add: default_param_def)
  have t: "intro_tables shop_db = shop_tables" "intro_tables empty_db = Obj []"
    by (simp_all add: shop_db_def empty_db_def)
  have w: "routers host_world = [[(''/health'', ''status'')]]" by (simp add: host_world_def)
  show ?thesis
    using createRouter_settles_unless_router_unusable [of shop_rest None failing_db host_world]
      createRouter_settles_unless_router_unusable [of shop_rest None shop_db host_world]
      createRouter_settles_unless_router_unusable [of shop_rest "Some (JNum 5)" empty_db host_world]
      createRouter_settles_unless_router_unusable [of shop_rest "Some (JNum 5)" shop_db host_world]
    by (simp add: e1 e2 e3 u1 u2 d t keys_shop keys_empty w props_shop)
qed

end
